theory Spec2Isabelle
  imports Main
begin

section \<open>The L3 extension of Neutron: \<^verbatim>\<open>neutron/extensions/l3.py\<close>\<close>

text \<open>
  The module declares ten exception classes, the attribute table of the two resources
  \<^verbatim>\<open>routers\<close> and \<^verbatim>\<open>floatingips\<close>, the extension descriptor \<^verbatim>\<open>L3\<close> and the
  abstract plugin class \<^verbatim>\<open>RouterPluginBase\<close>. Each of them is embedded below in the
  order of the source.
\<close>

subsection \<open>Python values\<close>

text \<open>
  The values that occur in the table and in request bodies. A dict is an association
  list read with \<^const>\<open>map_of\<close>.
\<close>

datatype pyval =
    PNone
  | PBool bool
  | PInt int
  | PStr string
  | PList "pyval list"
  | PDict "(string \<times> pyval) list"

subsection \<open>The L3 exceptions (lines 30 to 84)\<close>

text \<open>The three base classes of \<^verbatim>\<open>neutron_lib.exceptions\<close> that the module derives from.\<close>

datatype category = NotFound | InUse | Conflict

datatype l3_exception =
    RouterNotFound
  | RouterInUse
  | RouterInterfaceNotFound
  | RouterInterfaceNotFoundForSubnet
  | RouterInterfaceInUseByFloatingIP
  | FloatingIPNotFound
  | ExternalGatewayForFloatingIPNotFound
  | FloatingIPPortAlreadyAssociated
  | RouterExternalGatewayInUseByFloatingIp
  | RouterInterfaceAttachmentConflict

text \<open>The base class written in each \<^verbatim>\<open>class\<close> statement.\<close>

fun base :: "l3_exception \<Rightarrow> category" where
  "base RouterNotFound = NotFound"
| "base RouterInUse = InUse"
| "base RouterInterfaceNotFound = NotFound"
| "base RouterInterfaceNotFoundForSubnet = NotFound"
| "base RouterInterfaceInUseByFloatingIP = InUse"
| "base FloatingIPNotFound = NotFound"
| "base ExternalGatewayForFloatingIPNotFound = NotFound"
| "base FloatingIPPortAlreadyAssociated = InUse"
| "base RouterExternalGatewayInUseByFloatingIp = InUse"
| "base RouterInterfaceAttachmentConflict = Conflict"

text \<open>
  The class attribute \<^verbatim>\<open>message\<close>. Adjacent string literals of the source are
  joined as Python joins them; \<^verbatim>\<open>_\<close> marks the text for translation and leaves the
  template as it is.
\<close>

fun message :: "l3_exception \<Rightarrow> string" where
  "message RouterNotFound = ''Router %(router_id)s could not be found''"
| "message RouterInUse = ''Router %(router_id)s %(reason)s''"
| "message RouterInterfaceNotFound =
     ''Router %(router_id)s does not have '' @ ''an interface with id %(port_id)s''"
| "message RouterInterfaceNotFoundForSubnet =
     ''Router %(router_id)s has no interface '' @ ''on subnet %(subnet_id)s''"
| "message RouterInterfaceInUseByFloatingIP =
     ''Router interface for subnet %(subnet_id)s on router '' @
     ''%(router_id)s cannot be deleted, as it is required '' @
     ''by one or more floating IPs.''"
| "message FloatingIPNotFound = ''Floating IP %(floatingip_id)s could not be found''"
| "message ExternalGatewayForFloatingIPNotFound =
     ''External network %(external_network_id)s is not reachable '' @
     ''from subnet %(subnet_id)s.  Therefore, cannot associate '' @
     ''Port %(port_id)s with a Floating IP.''"
| "message FloatingIPPortAlreadyAssociated =
     ''Cannot associate floating IP %(floating_ip_address)s '' @
     ''(%(fip_id)s) with port %(port_id)s '' @
     ''using fixed IP %(fixed_ip)s, as that fixed IP already '' @
     ''has a floating IP on external network %(net_id)s.''"
| "message RouterExternalGatewayInUseByFloatingIp =
     ''Gateway cannot be updated for router %(router_id)s, since a '' @
     ''gateway to external network %(net_id)s is required by one or '' @
     ''more floating IPs.''"
| "message RouterInterfaceAttachmentConflict =
     ''Error %(reason)s while attempting the operation.''"

text \<open>The classes in the order of their declaration.\<close>

definition l3_exceptions :: "l3_exception list" where
  "l3_exceptions =
     [RouterNotFound, RouterInUse, RouterInterfaceNotFound,
      RouterInterfaceNotFoundForSubnet, RouterInterfaceInUseByFloatingIP,
      FloatingIPNotFound, ExternalGatewayForFloatingIPNotFound,
      FloatingIPPortAlreadyAssociated, RouterExternalGatewayInUseByFloatingIp,
      RouterInterfaceAttachmentConflict]"

text \<open>
  The names that a template asks for: every \<^verbatim>\<open>%(name)s\<close> of Python's
  \<^verbatim>\<open>%\<close>-formatting, from left to right.
\<close>

fun named_parameters :: "string \<Rightarrow> string list" where
  "named_parameters [] = []"
| "named_parameters [c] = []"
| "named_parameters (c # d # cs) =
     (if c = CHR ''%'' \<and> d = CHR ''(''
      then takeWhile (\<lambda>x. x \<noteq> CHR '')'') cs # named_parameters (d # cs)
      else named_parameters (d # cs))"

text \<open>
  An exception instance: its class and the keyword arguments that reached the base
  class's constructor.
\<close>

record exception_instance =
  exc_class :: l3_exception
  exc_kwargs :: "string \<rightharpoonup> pyval"

text \<open>
  \<^verbatim>\<open>RouterInUse.__init__(self, **kwargs)\<close>: the reason is filled in when the caller
  gave none, then the keyword arguments go to the base class.
\<close>

definition RouterInUse_init :: "(string \<rightharpoonup> pyval) \<Rightarrow> exception_instance" where
  "RouterInUse_init kwargs =
     (let kwargs' = (if ''reason'' \<notin> dom kwargs
                     then kwargs(''reason'' \<mapsto> PStr ''still has ports'')
                     else kwargs)
      in \<lparr>exc_class = RouterInUse, exc_kwargs = kwargs'\<rparr>)"

subsection \<open>The attribute table (lines 87 to 163)\<close>

definition ROUTERS :: string where
  "ROUTERS = ''routers''"

definition FLOATINGIP :: string where
  "FLOATINGIP = ''floatingip''"

definition FLOATINGIPS :: string where
  "FLOATINGIPS = FLOATINGIP @ ''s''"

definition EXTERNAL_GW_INFO :: string where
  "EXTERNAL_GW_INFO = ''external_gateway_info''"

text \<open>
  The two field sizes come from \<^verbatim>\<open>neutron_lib.db.constants\<close>; the table only names
  them, so they stay symbolic.
\<close>

datatype field_size = NAME_FIELD_SIZE | PROJECT_ID_FIELD_SIZE

text \<open>The two converters of \<^verbatim>\<open>neutron_lib.api.converters\<close> that the table names.\<close>

datatype converter = convert_to_boolean | convert_kvp_list_to_dict

text \<open>
  A \<^verbatim>\<open>validate\<close> entry is a dict with one key \<^verbatim>\<open>type:...\<close> and its parameter:
  \<^verbatim>\<open>None\<close> for most rules, a field size for \<^verbatim>\<open>type:string\<close>, and for
  \<^verbatim>\<open>type:dict_or_nodata\<close> a dict of key specifications. A key specification holds its
  own rule and the optional entries \<^verbatim>\<open>convert_list_to\<close>, \<^verbatim>\<open>default\<close> and
  \<^verbatim>\<open>required\<close> (\<open>None\<close> where the source has no such entry).
\<close>

datatype type_rule =
    type_uuid
  | type_string field_size
  | type_ip_address_or_none
  | type_uuid_or_none
  | type_fixed_ips
  | type_dict_or_nodata "(string \<times> key_spec) list"
and key_spec =
    KeySpec (ks_rule: type_rule)
            (ks_convert_list_to: "converter option")
            (ks_default: "pyval option")
            (ks_required: "bool option")

text \<open>
  One attribute of a resource. \<^verbatim>\<open>allow_post\<close>, \<^verbatim>\<open>allow_put\<close> and
  \<^verbatim>\<open>is_visible\<close> are given for every attribute of the table; the other entries are
  optional, and \<open>None\<close> stands for an entry the source does not give.
\<close>

record attr =
  allow_post :: bool
  allow_put :: bool
  validate :: "type_rule option"
  is_visible :: bool
  default_v :: "pyval option"
  convert_to :: "converter option"
  primary_key :: "bool option"
  required_by_policy :: "bool option"
  enforce_policy :: "bool option"

definition RESOURCE_ATTRIBUTE_MAP :: "(string \<times> (string \<times> attr) list) list" where
  "RESOURCE_ATTRIBUTE_MAP =
   [(ROUTERS,
     [(''id'',
       \<lparr>allow_post = False, allow_put = False,
        validate = Some type_uuid,
        is_visible = True, default_v = None, convert_to = None,
        primary_key = Some True, required_by_policy = None, enforce_policy = None\<rparr>),
      (''name'',
       \<lparr>allow_post = True, allow_put = True,
        validate = Some (type_string NAME_FIELD_SIZE),
        is_visible = True, default_v = Some (PStr []), convert_to = None,
        primary_key = None, required_by_policy = None, enforce_policy = None\<rparr>),
      (''admin_state_up'',
       \<lparr>allow_post = True, allow_put = True,
        validate = None,
        is_visible = True, default_v = Some (PBool True),
        convert_to = Some convert_to_boolean,
        primary_key = None, required_by_policy = None, enforce_policy = None\<rparr>),
      (''status'',
       \<lparr>allow_post = False, allow_put = False,
        validate = None,
        is_visible = True, default_v = None, convert_to = None,
        primary_key = None, required_by_policy = None, enforce_policy = None\<rparr>),
      (''tenant_id'',
       \<lparr>allow_post = True, allow_put = False,
        validate = Some (type_string PROJECT_ID_FIELD_SIZE),
        is_visible = True, default_v = None, convert_to = None,
        primary_key = None, required_by_policy = Some True, enforce_policy = None\<rparr>),
      (EXTERNAL_GW_INFO,
       \<lparr>allow_post = True, allow_put = True,
        validate = Some (type_dict_or_nodata
          [(''network_id'', KeySpec type_uuid None None (Some True)),
           (''external_fixed_ips'',
            KeySpec type_fixed_ips (Some convert_kvp_list_to_dict)
                    (Some PNone) (Some False))]),
        is_visible = True, default_v = Some PNone, convert_to = None,
        primary_key = None, required_by_policy = None, enforce_policy = Some True\<rparr>)]),
    (FLOATINGIPS,
     [(''id'',
       \<lparr>allow_post = False, allow_put = False,
        validate = Some type_uuid,
        is_visible = True, default_v = None, convert_to = None,
        primary_key = Some True, required_by_policy = None, enforce_policy = None\<rparr>),
      (''floating_ip_address'',
       \<lparr>allow_post = True, allow_put = False,
        validate = Some type_ip_address_or_none,
        is_visible = True, default_v = Some PNone, convert_to = None,
        primary_key = None, required_by_policy = None, enforce_policy = Some True\<rparr>),
      (''subnet_id'',
       \<lparr>allow_post = True, allow_put = False,
        validate = Some type_uuid_or_none,
        is_visible = False, default_v = Some PNone, convert_to = None,
        primary_key = None, required_by_policy = None, enforce_policy = None\<rparr>),
      (''floating_network_id'',
       \<lparr>allow_post = True, allow_put = False,
        validate = Some type_uuid,
        is_visible = True, default_v = None, convert_to = None,
        primary_key = None, required_by_policy = None, enforce_policy = None\<rparr>),
      (''router_id'',
       \<lparr>allow_post = False, allow_put = False,
        validate = Some type_uuid_or_none,
        is_visible = True, default_v = Some PNone, convert_to = None,
        primary_key = None, required_by_policy = None, enforce_policy = None\<rparr>),
      (''port_id'',
       \<lparr>allow_post = True, allow_put = True,
        validate = Some type_uuid_or_none,
        is_visible = True, default_v = Some PNone, convert_to = None,
        primary_key = None, required_by_policy = Some True, enforce_policy = None\<rparr>),
      (''fixed_ip_address'',
       \<lparr>allow_post = True, allow_put = True,
        validate = Some type_ip_address_or_none,
        is_visible = True, default_v = Some PNone, convert_to = None,
        primary_key = None, required_by_policy = None, enforce_policy = None\<rparr>),
      (''tenant_id'',
       \<lparr>allow_post = True, allow_put = False,
        validate = Some (type_string PROJECT_ID_FIELD_SIZE),
        is_visible = True, default_v = None, convert_to = None,
        primary_key = None, required_by_policy = Some True, enforce_policy = None\<rparr>),
      (''status'',
       \<lparr>allow_post = False, allow_put = False,
        validate = None,
        is_visible = True, default_v = None, convert_to = None,
        primary_key = None, required_by_policy = None, enforce_policy = None\<rparr>)])]"

text \<open>Reading the table: \<^verbatim>\<open>RESOURCE_ATTRIBUTE_MAP[resource][name]\<close>, where present.\<close>

definition attr_of :: "string \<Rightarrow> string \<Rightarrow> attr option" where
  "attr_of resource name =
     (case map_of RESOURCE_ATTRIBUTE_MAP resource of
        None \<Rightarrow> None
      | Some attrs \<Rightarrow> map_of attrs name)"

text \<open>Every attribute of the table with its resource and its name, in the table's order.\<close>

definition all_attributes :: "(string \<times> string \<times> attr) list" where
  "all_attributes =
     concat (map (\<lambda>(resource, attrs). map (\<lambda>(name, a). (resource, name, a)) attrs)
                 RESOURCE_ATTRIBUTE_MAP)"

subsection \<open>The extension descriptor \<^verbatim>\<open>L3\<close> (lines 169 to 210)\<close>

text \<open>
  \<^verbatim>\<open>L3.get_resources\<close> builds the plural mappings and the action map and hands
  them to \<^verbatim>\<open>resource_helper.build_resource_info\<close>. The two helpers of
  \<^verbatim>\<open>neutron.api.v2.resource_helper\<close> and the constant
  \<^verbatim>\<open>constants.L3_ROUTER_NAT\<close> are imported by the module, so they are parameters
  here; the last argument is \<^verbatim>\<open>register_quota=True\<close>.
\<close>

definition get_resources ::
  "((string \<times> string) list \<Rightarrow> (string \<times> (string \<times> attr) list) list \<Rightarrow> 'pm) \<Rightarrow>
   ('pm \<Rightarrow> (string \<times> (string \<times> attr) list) list \<Rightarrow> 'svc \<Rightarrow>
      (string \<times> (string \<times> string) list) list \<Rightarrow> bool \<Rightarrow> 'res) \<Rightarrow>
   'svc \<Rightarrow> 'res" where
  "get_resources build_plural_mappings build_resource_info L3_ROUTER_NAT =
     (let plural_mappings = build_plural_mappings [] RESOURCE_ATTRIBUTE_MAP;
          action_map = [(''router'', [(''add_router_interface'', ''PUT''),
                                      (''remove_router_interface'', ''PUT'')])]
      in build_resource_info plural_mappings RESOURCE_ATTRIBUTE_MAP L3_ROUTER_NAT
           action_map True)"

text \<open>The entries of an action map as triples of resource, action and request method.\<close>

definition custom_actions ::
  "(string \<times> (string \<times> string) list) list \<Rightarrow> (string \<times> string \<times> string) list" where
  "custom_actions action_map =
     concat (map (\<lambda>(resource, actions). map (\<lambda>(action, method). (resource, action, method))
                                              actions)
                 action_map)"

text \<open>
  \<^verbatim>\<open>L3.get_extended_resources(self, version)\<close>. The argument is any Python value;
  \<^verbatim>\<open>version == "2.0"\<close> holds for the string \<^verbatim>\<open>2.0\<close> only.
\<close>

definition get_extended_resources :: "pyval \<Rightarrow> (string \<times> (string \<times> attr) list) list" where
  "get_extended_resources version =
     (if version = PStr ''2.0'' then RESOURCE_ATTRIBUTE_MAP else [])"

subsection \<open>The plugin base class \<^verbatim>\<open>RouterPluginBase\<close> (lines 213 to 271)\<close>

datatype py_error = NotImplementedError | TypeError

text \<open>
  The methods of the class body in the order of the source: those under
  \<^verbatim>\<open>@abc.abstractmethod\<close> (their body is \<^verbatim>\<open>pass\<close>) and the two without the
  decorator.
\<close>

datatype method_kind = abstractmethod | concrete

definition RouterPluginBase :: "(string \<times> method_kind) list" where
  "RouterPluginBase =
     [(''create_router'', abstractmethod),
      (''update_router'', abstractmethod),
      (''get_router'', abstractmethod),
      (''delete_router'', abstractmethod),
      (''get_routers'', abstractmethod),
      (''add_router_interface'', abstractmethod),
      (''remove_router_interface'', abstractmethod),
      (''create_floatingip'', abstractmethod),
      (''update_floatingip'', abstractmethod),
      (''get_floatingip'', abstractmethod),
      (''delete_floatingip'', abstractmethod),
      (''get_floatingips'', abstractmethod),
      (''get_routers_count'', concrete),
      (''get_floatingips_count'', concrete)]"

text \<open>The bodies of the two methods without the decorator: each raises at once.\<close>

definition get_routers_count :: "'self \<Rightarrow> 'context \<Rightarrow> 'filters option \<Rightarrow> py_error + 'count" where
  "get_routers_count self context filters = Inl NotImplementedError"

definition get_floatingips_count ::
  "'self \<Rightarrow> 'context \<Rightarrow> 'filters option \<Rightarrow> py_error + 'count" where
  "get_floatingips_count self context filters = Inl NotImplementedError"

text \<open>
  A plugin is a subclass of \<^verbatim>\<open>RouterPluginBase\<close>: the names of the methods that its
  own body defines, and its own count methods where it defines them.
\<close>

record ('context, 'filters, 'count) plugin =
  defined_methods :: "string list"
  own_get_routers_count :: "('context \<Rightarrow> 'filters option \<Rightarrow> py_error + 'count) option"
  own_get_floatingips_count :: "('context \<Rightarrow> 'filters option \<Rightarrow> py_error + 'count) option"

text \<open>The names that \<^verbatim>\<open>abc.ABCMeta\<close> collects in \<^verbatim>\<open>__abstractmethods__\<close>.\<close>

definition abstractmethods :: "string list" where
  "abstractmethods = map fst (filter (\<lambda>(name, kind). kind = abstractmethod) RouterPluginBase)"

text \<open>
  Creating an instance: \<^verbatim>\<open>abc.ABCMeta\<close> refuses with \<^verbatim>\<open>TypeError\<close> while an
  abstract method is left without a definition in the subclass.
\<close>

definition instantiate ::
  "('context, 'filters, 'count) plugin \<Rightarrow> py_error + ('context, 'filters, 'count) plugin" where
  "instantiate cls =
     (if list_all (\<lambda>name. name \<in> set (defined_methods cls)) abstractmethods
      then Inr cls else Inl TypeError)"

text \<open>
  Calling a count method on a plugin: the subclass's own method where it has one, the
  method of the base class otherwise.
\<close>

definition call_get_routers_count ::
  "('context, 'filters, 'count) plugin \<Rightarrow> 'context \<Rightarrow> 'filters option \<Rightarrow> py_error + 'count" where
  "call_get_routers_count cls context filters =
     (case own_get_routers_count cls of
        Some m \<Rightarrow> m context filters
      | None \<Rightarrow> get_routers_count cls context filters)"

definition call_get_floatingips_count ::
  "('context, 'filters, 'count) plugin \<Rightarrow> 'context \<Rightarrow> 'filters option \<Rightarrow> py_error + 'count" where
  "call_get_floatingips_count cls context filters =
     (case own_get_floatingips_count cls of
        Some m \<Rightarrow> m context filters
      | None \<Rightarrow> get_floatingips_count cls context filters)"

subsection \<open>The consumer of the table\<close>

text \<open>
  The module only declares the table. The layer that reads it (the validators behind
  the \<^verbatim>\<open>type:...\<close> names, the converters, and the code that fills a create request
  with defaults) is imported from elsewhere, so the part of it that the properties below
  speak about is written after the specification.
\<close>

text \<open>
  The validators of the rules without a nested specification, and the converters, are
  parameters: \<open>is_valid env rule v\<close> says that the validator of \<open>rule\<close> accepts
  \<open>v\<close>, and \<open>convert env c v\<close> is the converted value, or \<open>None\<close> where the
  converter raises.
\<close>

record validation_env =
  is_valid :: "type_rule \<Rightarrow> pyval \<Rightarrow> bool"
  convert :: "converter \<Rightarrow> pyval \<Rightarrow> pyval option"

text \<open>
  Modelled from the spec: the validator behind \<^verbatim>\<open>type:dict_or_nodata\<close> is missing
  from the source. Specification, section 4.1: ``if the outer value is absent, succeed
  trivially (optional dict-or-absent); otherwise validate it as a dict matching an inner
  schema with its own per-key rules (UUID required, fixed-IP list optional with a
  conversion step from flat key-value-pair notation to structured form)''. Absent is
  \<^verbatim>\<open>None\<close> (section 3: ``or absent (null/default)''). A key that the dict lacks fails
  when its specification says \<^verbatim>\<open>'required': True\<close> and passes otherwise; a key that
  the dict has is converted where the specification names a converter and is then
  checked by the key's own rule. The result is whether validation succeeds.
\<close>

fun validate_rule :: "validation_env \<Rightarrow> type_rule \<Rightarrow> pyval \<Rightarrow> bool"
and validate_keys :: "validation_env \<Rightarrow> (string \<times> key_spec) list \<Rightarrow> (string \<times> pyval) list \<Rightarrow> bool"
where
  "validate_rule env (type_dict_or_nodata key_specs) v =
     (case v of
        PNone \<Rightarrow> True
      | PDict kvs \<Rightarrow> validate_keys env key_specs kvs
      | _ \<Rightarrow> False)"
| "validate_rule env type_uuid v = is_valid env type_uuid v"
| "validate_rule env (type_string n) v = is_valid env (type_string n) v"
| "validate_rule env type_ip_address_or_none v = is_valid env type_ip_address_or_none v"
| "validate_rule env type_uuid_or_none v = is_valid env type_uuid_or_none v"
| "validate_rule env type_fixed_ips v = is_valid env type_fixed_ips v"
| "validate_keys env [] kvs = True"
| "validate_keys env ((key, KeySpec rule conv dflt req) # key_specs) kvs =
     ((case map_of kvs key of
         None \<Rightarrow> req \<noteq> Some True
       | Some x \<Rightarrow>
           (case conv of
              None \<Rightarrow> validate_rule env rule x
            | Some c \<Rightarrow>
                (case convert env c x of
                   None \<Rightarrow> False
                 | Some y \<Rightarrow> validate_rule env rule y)))
      \<and> validate_keys env key_specs kvs)"

text \<open>Validating a value for an attribute: by the attribute's \<^verbatim>\<open>validate\<close> entry, if any.\<close>

definition validate_attribute :: "validation_env \<Rightarrow> attr \<Rightarrow> pyval \<Rightarrow> bool" where
  "validate_attribute env a v =
     (case validate a of None \<Rightarrow> True | Some rule \<Rightarrow> validate_rule env rule v)"

text \<open>
  Modelled from the spec: the code that builds the stored resource from a create request
  is missing from the source. Specification, section 4.1: ``\<^verbatim>\<open>default\<close>: value
  substituted when absent on create''. The value of an attribute after a create request
  with the given body: the body's value where the body has the attribute, the table's
  default otherwise (\<open>None\<close> where the table gives no default either).
\<close>

definition value_on_create :: "string \<Rightarrow> string \<Rightarrow> (string \<times> pyval) list \<Rightarrow> pyval option" where
  "value_on_create resource name body =
     (case map_of body name of
        Some v \<Rightarrow> Some v
      | None \<Rightarrow> (case attr_of resource name of
                   None \<Rightarrow> None
                 | Some a \<Rightarrow> default_v a))"

text \<open>
  An environment for examples: the UUID validator accepts the strings of 36 characters,
  the validator of fixed IPs accepts every list, no other value is accepted, and the
  converters return their argument.
\<close>

definition example_env :: validation_env where
  "example_env =
     \<lparr>is_valid = (\<lambda>rule v. case v of
                                PStr s \<Rightarrow> rule = type_uuid \<and> length s = 36
                              | PList xs \<Rightarrow> rule = type_fixed_ips
                              | _ \<Rightarrow> False),
      convert = (\<lambda>c v. Some v)\<rparr>"

section \<open>Properties\<close>

subsection \<open>Reading the table\<close>

lemmas table_defs = attr_of_def RESOURCE_ATTRIBUTE_MAP_def ROUTERS_def FLOATINGIP_def
  FLOATINGIPS_def EXTERNAL_GW_INFO_def

text \<open>Whatever \<^const>\<open>attr_of\<close> finds is an entry of \<^const>\<open>all_attributes\<close>.\<close>

lemma attr_of_in_all_attributes:
  assumes "attr_of resource name = Some a"
  shows "(resource, name, a) \<in> set all_attributes"
proof -
  from assms obtain attrs
    where r: "map_of RESOURCE_ATTRIBUTE_MAP resource = Some attrs"
      and n: "map_of attrs name = Some a"
    by (auto simp: attr_of_def split: option.splits)
  from r have "(resource, attrs) \<in> set RESOURCE_ATTRIBUTE_MAP"
    by (rule map_of_SomeD)
  moreover from n have "(name, a) \<in> set attrs"
    by (rule map_of_SomeD)
  ultimately show ?thesis
    unfolding all_attributes_def by force
qed

lemma all_attributes_post_put:
  "list_all (\<lambda>(r, n, a). (allow_post a, allow_put a) \<in>
              {(False, False), (True, False), (True, True)}) all_attributes"
  by (simp add: all_attributes_def table_defs)

lemma all_attributes_visible:
  "list_all (\<lambda>(r, n, a). \<not> is_visible a \<longleftrightarrow> r = FLOATINGIPS \<and> n = ''subnet_id'')
            all_attributes"
  by (simp add: all_attributes_def table_defs)

subsection \<open>The floating IP attributes\<close>

text \<open>
  Claim C2. In the \<^verbatim>\<open>floatingips\<close> table each of the attributes \<^verbatim>\<open>id\<close>,
  \<^verbatim>\<open>router_id\<close> and \<^verbatim>\<open>status\<close> is present with \<^verbatim>\<open>allow_post\<close> false and
  \<^verbatim>\<open>allow_put\<close> false: none of the three may be supplied on create or on update.
\<close>

theorem floatingip_read_only_attributes:
  "map_option (\<lambda>a. (allow_post a, allow_put a)) (attr_of FLOATINGIPS ''id'') =
     Some (False, False) \<and>
   map_option (\<lambda>a. (allow_post a, allow_put a)) (attr_of FLOATINGIPS ''router_id'') =
     Some (False, False) \<and>
   map_option (\<lambda>a. (allow_post a, allow_put a)) (attr_of FLOATINGIPS ''status'') =
     Some (False, False)"
  by (simp add: table_defs)

text \<open>
  Claim C7. The attribute \<^verbatim>\<open>subnet_id\<close> of \<^verbatim>\<open>floatingips\<close> may be supplied on
  create and not on update, is validated as a UUID or \<^verbatim>\<open>None\<close>, defaults to
  \<^verbatim>\<open>None\<close> and is not visible; and among all attributes of both resources it is the
  only one that is not visible.
\<close>

theorem floatingip_subnet_id_input_only:
  "map_option (\<lambda>a. (allow_post a, allow_put a, validate a, default_v a, is_visible a))
     (attr_of FLOATINGIPS ''subnet_id'') =
     Some (True, False, Some type_uuid_or_none, Some PNone, False) \<and>
   (\<forall>resource name a. attr_of resource name = Some a \<longrightarrow>
      (\<not> is_visible a \<longleftrightarrow> resource = FLOATINGIPS \<and> name = ''subnet_id''))"
proof (intro conjI allI impI)
  show "map_option (\<lambda>a. (allow_post a, allow_put a, validate a, default_v a, is_visible a))
     (attr_of FLOATINGIPS ''subnet_id'') =
     Some (True, False, Some type_uuid_or_none, Some PNone, False)"
    by (simp add: table_defs)
next
  fix resource name a
  assume "attr_of resource name = Some a"
  then have "(resource, name, a) \<in> set all_attributes"
    by (rule attr_of_in_all_attributes)
  with all_attributes_visible
  show "\<not> is_visible a \<longleftrightarrow> resource = FLOATINGIPS \<and> name = ''subnet_id''"
    by (auto simp: list_all_iff)
qed

theorem floatingip_subnet_id_input_only_witness:
  "(\<exists>a. attr_of FLOATINGIPS ''subnet_id'' = Some a \<and> \<not> is_visible a) \<and>
   (\<exists>a. attr_of ROUTERS ''status'' = Some a \<and> is_visible a)"
proof -
  obtain a where a: "attr_of FLOATINGIPS ''subnet_id'' = Some a"
    by (simp add: table_defs)
  obtain b where b: "attr_of ROUTERS ''status'' = Some b"
    by (simp add: table_defs)
  have "ROUTERS \<noteq> FLOATINGIPS"
    by (simp add: table_defs)
  with floatingip_subnet_id_input_only a b
  have "\<not> is_visible a" and "is_visible b"
    by blast+
  with a b show ?thesis by blast
qed

subsection \<open>Mutability\<close>

text \<open>
  Claim C9. For every attribute of both resources: if \<^verbatim>\<open>allow_put\<close> is true then
  \<^verbatim>\<open>allow_post\<close> is true, if \<^verbatim>\<open>allow_post\<close> is false then \<^verbatim>\<open>allow_put\<close>
  is false, and so the pair of flags is one of read-only (false, false), create-only
  (true, false) and create-and-update (true, true); update-only does not occur.
\<close>

theorem mutability_chain:
  assumes "attr_of resource name = Some a"
  shows "(allow_put a \<longrightarrow> allow_post a) \<and>
         (\<not> allow_post a \<longrightarrow> \<not> allow_put a) \<and>
         (allow_post a, allow_put a) \<in> {(False, False), (True, False), (True, True)}"
proof -
  from assms have "(resource, name, a) \<in> set all_attributes"
    by (rule attr_of_in_all_attributes)
  with all_attributes_post_put
  have "(allow_post a, allow_put a) \<in> {(False, False), (True, False), (True, True)}"
    by (auto simp: list_all_iff)
  then show ?thesis by auto
qed

theorem mutability_chain_witness:
  "(\<exists>a. attr_of ROUTERS ''name'' = Some a \<and> allow_put a \<and> allow_post a) \<and>
   (\<exists>a. attr_of FLOATINGIPS ''router_id'' = Some a \<and> \<not> allow_post a \<and> \<not> allow_put a)"
proof -
  obtain a where a: "attr_of ROUTERS ''name'' = Some a" and pa: "allow_put a"
    by (simp add: table_defs)
  obtain b where b: "attr_of FLOATINGIPS ''router_id'' = Some b" and pb: "\<not> allow_post b"
    by (simp add: table_defs)
  from mutability_chain [OF a] pa have "allow_post a" by simp
  moreover from mutability_chain [OF b] pb have "\<not> allow_put b" by simp
  ultimately show ?thesis using a b pa pb by blast
qed

subsection \<open>The exceptions\<close>

text \<open>
  Claim C6. The module declares ten exception classes, and each has one base class:
  \<^verbatim>\<open>NotFound\<close> for RouterNotFound, RouterInterfaceNotFound,
  RouterInterfaceNotFoundForSubnet, FloatingIPNotFound and
  ExternalGatewayForFloatingIPNotFound; \<^verbatim>\<open>InUse\<close> for RouterInUse,
  RouterInterfaceInUseByFloatingIP, FloatingIPPortAlreadyAssociated and
  RouterExternalGatewayInUseByFloatingIp; \<^verbatim>\<open>Conflict\<close> for
  RouterInterfaceAttachmentConflict. Each message template asks for at least one named
  parameter; the names are listed in the order of the classes.
\<close>

theorem l3_exception_categories:
  "base RouterNotFound = NotFound \<and>
   base RouterInterfaceNotFound = NotFound \<and>
   base RouterInterfaceNotFoundForSubnet = NotFound \<and>
   base FloatingIPNotFound = NotFound \<and>
   base ExternalGatewayForFloatingIPNotFound = NotFound \<and>
   base RouterInUse = InUse \<and>
   base RouterInterfaceInUseByFloatingIP = InUse \<and>
   base FloatingIPPortAlreadyAssociated = InUse \<and>
   base RouterExternalGatewayInUseByFloatingIp = InUse \<and>
   base RouterInterfaceAttachmentConflict = Conflict \<and>
   length l3_exceptions = 10 \<and> distinct l3_exceptions \<and> set l3_exceptions = UNIV \<and>
   map (\<lambda>e. named_parameters (message e)) l3_exceptions =
     [[''router_id''],
      [''router_id'', ''reason''],
      [''router_id'', ''port_id''],
      [''router_id'', ''subnet_id''],
      [''subnet_id'', ''router_id''],
      [''floatingip_id''],
      [''external_network_id'', ''subnet_id'', ''port_id''],
      [''floating_ip_address'', ''fip_id'', ''port_id'', ''fixed_ip'', ''net_id''],
      [''router_id'', ''net_id''],
      [''reason'']]"
proof -
  have every: "set l3_exceptions = UNIV"
  proof -
    have "e \<in> set l3_exceptions" for e
      by (cases e) (simp_all add: l3_exceptions_def)
    then show ?thesis by auto
  qed
  have params: "map (\<lambda>e. named_parameters (message e)) l3_exceptions =
     [[''router_id''],
      [''router_id'', ''reason''],
      [''router_id'', ''port_id''],
      [''router_id'', ''subnet_id''],
      [''subnet_id'', ''router_id''],
      [''floatingip_id''],
      [''external_network_id'', ''subnet_id'', ''port_id''],
      [''floating_ip_address'', ''fip_id'', ''port_id'', ''fixed_ip'', ''net_id''],
      [''router_id'', ''net_id''],
      [''reason'']]"
    by (simp add: l3_exceptions_def)
  show ?thesis using every params by (simp add: l3_exceptions_def)
qed

subsection \<open>The extension descriptor\<close>

text \<open>
  Claim C8. Whatever the two helpers are, \<^verbatim>\<open>get_resources\<close> hands
  \<^verbatim>\<open>build_resource_info\<close> an action map with exactly two entries, both under the
  resource \<^verbatim>\<open>router\<close>: \<^verbatim>\<open>add_router_interface\<close> and
  \<^verbatim>\<open>remove_router_interface\<close>, each with the request method \<^verbatim>\<open>PUT\<close>. (The
  action map is read off by passing the projection to the fourth argument as
  \<^verbatim>\<open>build_resource_info\<close>.)
\<close>

theorem get_resources_custom_actions:
  "custom_actions (get_resources bpm (\<lambda>pm ram svc am rq. am) svc) =
     [(''router'', ''add_router_interface'', ''PUT''),
      (''router'', ''remove_router_interface'', ''PUT'')] \<and>
   get_resources bpm bri svc =
     bri (bpm [] RESOURCE_ATTRIBUTE_MAP) RESOURCE_ATTRIBUTE_MAP svc
       (get_resources bpm (\<lambda>pm ram svc am rq. am) svc) True"
  by (simp add: custom_actions_def get_resources_def)

text \<open>
  Claim C10. \<^verbatim>\<open>get_extended_resources\<close> returns the whole attribute table, with
  the two keys \<^verbatim>\<open>routers\<close> and \<^verbatim>\<open>floatingips\<close>, exactly when the version is the
  string \<^verbatim>\<open>2.0\<close>, and the empty dict for every other version.
\<close>

theorem get_extended_resources_version:
  "(get_extended_resources version = RESOURCE_ATTRIBUTE_MAP \<longleftrightarrow> version = PStr ''2.0'') \<and>
   (version \<noteq> PStr ''2.0'' \<longrightarrow> get_extended_resources version = []) \<and>
   map fst (get_extended_resources (PStr ''2.0'')) = [''routers'', ''floatingips'']"
  by (simp add: get_extended_resources_def RESOURCE_ATTRIBUTE_MAP_def ROUTERS_def
                FLOATINGIPS_def FLOATINGIP_def)

theorem get_extended_resources_version_witness:
  "PStr ''2'' \<noteq> PStr ''2.0'' \<and> get_extended_resources (PStr ''2'') = [] \<and>
   PInt 2 \<noteq> PStr ''2.0'' \<and> get_extended_resources (PInt 2) = []"
  using get_extended_resources_version [of "PStr ''2''"]
        get_extended_resources_version [of "PInt 2"]
  by simp

subsection \<open>The router attributes\<close>

text \<open>
  Claim C1. The \<^verbatim>\<open>validate\<close> entry of \<^verbatim>\<open>external_gateway_info\<close> is
  \<^verbatim>\<open>type:dict_or_nodata\<close> with two key specifications: \<^verbatim>\<open>network_id\<close>, a
  required UUID, and \<^verbatim>\<open>external_fixed_ips\<close>, not required, with the converter
  \<^verbatim>\<open>convert_kvp_list_to_dict\<close>, the rule \<^verbatim>\<open>type:fixed_ips\<close> and the default
  \<^verbatim>\<open>None\<close>. Under the validator of the specification, and for any validators of
  the two inner rules and any converter, validation succeeds for \<^verbatim>\<open>None\<close>; and it
  succeeds for a value exactly when the value is \<^verbatim>\<open>None\<close>, or is a dict that has a
  \<^verbatim>\<open>network_id\<close> accepted as a UUID and either has no \<^verbatim>\<open>external_fixed_ips\<close> or
  has one that the converter converts to a value accepted as fixed IPs. Every other
  value fails.
\<close>

theorem external_gateway_info_validation:
  "\<exists>a key_specs.
     attr_of ROUTERS EXTERNAL_GW_INFO = Some a \<and>
     validate a = Some (type_dict_or_nodata key_specs) \<and>
     map_option (\<lambda>k. (ks_rule k, ks_required k)) (map_of key_specs ''network_id'') =
       Some (type_uuid, Some True) \<and>
     map_of key_specs ''external_fixed_ips'' =
       Some (KeySpec type_fixed_ips (Some convert_kvp_list_to_dict) (Some PNone) (Some False)) \<and>
     validate_attribute env a PNone \<and>
     (\<forall>v. validate_attribute env a v \<longleftrightarrow>
        v = PNone \<or>
        (\<exists>kvs. v = PDict kvs \<and>
           (\<exists>n. map_of kvs ''network_id'' = Some n \<and> is_valid env type_uuid n) \<and>
           (case map_of kvs ''external_fixed_ips'' of
              None \<Rightarrow> True
            | Some x \<Rightarrow> (\<exists>y. convert env convert_kvp_list_to_dict x = Some y \<and>
                              is_valid env type_fixed_ips y))))"
proof -
  let ?specs = "[(''network_id'', KeySpec type_uuid None None (Some True)),
                 (''external_fixed_ips'',
                  KeySpec type_fixed_ips (Some convert_kvp_list_to_dict)
                          (Some PNone) (Some False))]"
  obtain a where a: "attr_of ROUTERS EXTERNAL_GW_INFO = Some a"
    and va: "validate a = Some (type_dict_or_nodata ?specs)"
    by (simp add: table_defs)
  have r: "validate_attribute env a v \<longleftrightarrow>
        v = PNone \<or>
        (\<exists>kvs. v = PDict kvs \<and>
           (\<exists>n. map_of kvs ''network_id'' = Some n \<and> is_valid env type_uuid n) \<and>
           (case map_of kvs ''external_fixed_ips'' of
              None \<Rightarrow> True
            | Some x \<Rightarrow> (\<exists>y. convert env convert_kvp_list_to_dict x = Some y \<and>
                              is_valid env type_fixed_ips y)))" for v
    by (cases v) (auto simp: validate_attribute_def va split: option.splits)
  have n: "validate_attribute env a PNone"
    by (simp add: validate_attribute_def va)
  from a va r n show ?thesis
    by (intro exI [of _ a] exI [of _ ?specs]) simp
qed

theorem external_gateway_info_validation_witness:
  "\<exists>a. attr_of ROUTERS EXTERNAL_GW_INFO = Some a \<and>
     validate_attribute example_env a PNone \<and>
     validate_attribute example_env a
       (PDict [(''network_id'', PStr ''3fa85f64-5717-4562-b3fc-2c963f66afa6'')]) \<and>
     validate_attribute example_env a
       (PDict [(''network_id'', PStr ''3fa85f64-5717-4562-b3fc-2c963f66afa6''),
               (''external_fixed_ips'', PList [])]) \<and>
     \<not> validate_attribute example_env a (PDict []) \<and>
     \<not> validate_attribute example_env a (PDict [(''network_id'', PStr ''net1'')]) \<and>
     \<not> validate_attribute example_env a
       (PDict [(''network_id'', PStr ''3fa85f64-5717-4562-b3fc-2c963f66afa6''),
               (''external_fixed_ips'', PInt 4)]) \<and>
     \<not> validate_attribute example_env a (PStr ''3fa85f64-5717-4562-b3fc-2c963f66afa6'') \<and>
     \<not> validate_attribute example_env a (PList [])"
proof -
  from external_gateway_info_validation [of example_env]
  obtain a where a: "attr_of ROUTERS EXTERNAL_GW_INFO = Some a"
    and r: "\<And>v. validate_attribute example_env a v \<longleftrightarrow>
        v = PNone \<or>
        (\<exists>kvs. v = PDict kvs \<and>
           (\<exists>n. map_of kvs ''network_id'' = Some n \<and> is_valid example_env type_uuid n) \<and>
           (case map_of kvs ''external_fixed_ips'' of
              None \<Rightarrow> True
            | Some x \<Rightarrow> (\<exists>y. convert example_env convert_kvp_list_to_dict x = Some y \<and>
                              is_valid example_env type_fixed_ips y)))"
    by blast
  show ?thesis
    by (rule exI [of _ a]) (simp only: r, simp add: a example_env_def)
qed

text \<open>
  Claim C3. The attribute \<^verbatim>\<open>admin_state_up\<close> of \<^verbatim>\<open>routers\<close> may be supplied
  on create and on update, is converted to a boolean and has the default \<^verbatim>\<open>True\<close>;
  so for every create request whose body lacks \<^verbatim>\<open>admin_state_up\<close> the value after
  the substitution of defaults is \<^verbatim>\<open>True\<close>.
\<close>

theorem admin_state_up_default:
  "map_option (\<lambda>a. (allow_post a, allow_put a, default_v a, convert_to a))
     (attr_of ROUTERS ''admin_state_up'') =
     Some (True, True, Some (PBool True), Some convert_to_boolean) \<and>
   (map_of body ''admin_state_up'' = None \<longrightarrow>
      value_on_create ROUTERS ''admin_state_up'' body = Some (PBool True))"
  by (simp add: value_on_create_def table_defs)

theorem admin_state_up_default_witness:
  "map_of [(''name'', PStr ''r1'')] ''admin_state_up'' = None \<and>
   value_on_create ROUTERS ''admin_state_up'' [(''name'', PStr ''r1'')] = Some (PBool True)"
  using admin_state_up_default [of "[(''name'', PStr ''r1'')]"] by simp

subsection \<open>The constructor of \<^verbatim>\<open>RouterInUse\<close>\<close>

text \<open>
  Claim C5. When the keyword arguments have no \<^verbatim>\<open>reason\<close>, the instance gets the
  reason \<^verbatim>\<open>still has ports\<close>; when they have one, it is kept. Every other keyword
  argument, \<^verbatim>\<open>router_id\<close> among them, reaches the base class unchanged. The class
  derives from \<^verbatim>\<open>InUse\<close>, and its message template asks for \<^verbatim>\<open>router_id\<close> and
  \<^verbatim>\<open>reason\<close>.
\<close>

theorem RouterInUse_default_reason:
  "(kwargs ''reason'' = None \<longrightarrow>
      exc_kwargs (RouterInUse_init kwargs) ''reason'' = Some (PStr ''still has ports'')) \<and>
   (kwargs ''reason'' = Some r \<longrightarrow>
      exc_kwargs (RouterInUse_init kwargs) ''reason'' = Some r) \<and>
   (\<forall>k. k \<noteq> ''reason'' \<longrightarrow> exc_kwargs (RouterInUse_init kwargs) k = kwargs k) \<and>
   exc_kwargs (RouterInUse_init kwargs) ''router_id'' = kwargs ''router_id'' \<and>
   exc_class (RouterInUse_init kwargs) = RouterInUse \<and>
   base (exc_class (RouterInUse_init kwargs)) = InUse \<and>
   named_parameters (message (exc_class (RouterInUse_init kwargs))) =
     [''router_id'', ''reason'']"
  by (auto simp: RouterInUse_init_def Let_def)

theorem RouterInUse_default_reason_witness:
  "[''router_id'' \<mapsto> PStr ''r1''] ''reason'' = None \<and>
   exc_kwargs (RouterInUse_init [''router_id'' \<mapsto> PStr ''r1'']) ''reason'' =
     Some (PStr ''still has ports'') \<and>
   exc_kwargs (RouterInUse_init [''router_id'' \<mapsto> PStr ''r1'']) ''router_id'' =
     Some (PStr ''r1'') \<and>
   [''router_id'' \<mapsto> PStr ''r1'', ''reason'' \<mapsto> PStr ''is busy''] ''reason'' =
     Some (PStr ''is busy'') \<and>
   exc_kwargs (RouterInUse_init [''router_id'' \<mapsto> PStr ''r1'', ''reason'' \<mapsto> PStr ''is busy''])
     ''reason'' = Some (PStr ''is busy'')"
  using RouterInUse_default_reason [of "[''router_id'' \<mapsto> PStr ''r1'']"]
        RouterInUse_default_reason
          [of "[''router_id'' \<mapsto> PStr ''r1'', ''reason'' \<mapsto> PStr ''is busy'']" "PStr ''is busy''"]
  by simp

subsection \<open>The plugin base class\<close>

text \<open>
  Claim C4. On a plugin that does not define \<^verbatim>\<open>get_routers_count\<close>, every call of
  it raises \<^verbatim>\<open>NotImplementedError\<close>, and likewise for
  \<^verbatim>\<open>get_floatingips_count\<close>: these two are the only methods of the base class
  without the \<^verbatim>\<open>abstractmethod\<close> decorator. The other twelve (create, update, get,
  delete and list for routers and for floating IPs, and adding and removing a router
  interface) are abstract: a plugin can be instantiated exactly when it defines all of
  them, and the attempt raises \<^verbatim>\<open>TypeError\<close> otherwise.
\<close>

theorem count_methods_unimplemented:
  "(own_get_routers_count cls = None \<longrightarrow>
      call_get_routers_count cls context filters = Inl NotImplementedError) \<and>
   (own_get_floatingips_count cls = None \<longrightarrow>
      call_get_floatingips_count cls context filters = Inl NotImplementedError) \<and>
   get_routers_count self context filters = Inl NotImplementedError \<and>
   get_floatingips_count self context filters = Inl NotImplementedError \<and>
   abstractmethods =
     [''create_router'', ''update_router'', ''get_router'', ''delete_router'',
      ''get_routers'', ''add_router_interface'', ''remove_router_interface'',
      ''create_floatingip'', ''update_floatingip'', ''get_floatingip'',
      ''delete_floatingip'', ''get_floatingips''] \<and>
   map fst (filter (\<lambda>(name, kind). kind = concrete) RouterPluginBase) =
     [''get_routers_count'', ''get_floatingips_count''] \<and>
   (instantiate cls = Inr cls \<longleftrightarrow> set abstractmethods \<subseteq> set (defined_methods cls)) \<and>
   (\<not> set abstractmethods \<subseteq> set (defined_methods cls) \<longrightarrow> instantiate cls = Inl TypeError)"
  by (simp add: call_get_routers_count_def call_get_floatingips_count_def
                get_routers_count_def get_floatingips_count_def abstractmethods_def
                RouterPluginBase_def instantiate_def)

theorem count_methods_unimplemented_witness:
  "call_get_routers_count
     \<lparr>defined_methods = abstractmethods, own_get_routers_count = None,
      own_get_floatingips_count = None\<rparr> () (None :: unit option) =
     (Inl NotImplementedError :: py_error + nat) \<and>
   call_get_floatingips_count
     \<lparr>defined_methods = abstractmethods, own_get_routers_count = None,
      own_get_floatingips_count = None\<rparr> () (None :: unit option) =
     (Inl NotImplementedError :: py_error + nat) \<and>
   instantiate (\<lparr>defined_methods = [''create_router''], own_get_routers_count = None,
      own_get_floatingips_count = None\<rparr> :: (unit, unit, nat) plugin) = Inl TypeError"
proof -
  let ?p = "\<lparr>defined_methods = abstractmethods, own_get_routers_count = None,
      own_get_floatingips_count = None\<rparr> :: (unit, unit, nat) plugin"
  let ?q = "\<lparr>defined_methods = [''create_router''], own_get_routers_count = None,
      own_get_floatingips_count = None\<rparr> :: (unit, unit, nat) plugin"
  have none: "own_get_routers_count ?p = None" "own_get_floatingips_count ?p = None"
    by simp_all
  have lacking: "\<not> set abstractmethods \<subseteq> set (defined_methods ?q)"
    by (simp add: abstractmethods_def RouterPluginBase_def)
  from count_methods_unimplemented [of ?p "()" None "()"] none
  have "call_get_routers_count ?p () None = Inl NotImplementedError"
    and "call_get_floatingips_count ?p () None = Inl NotImplementedError"
    by blast+
  moreover from count_methods_unimplemented [of ?q "()" None "()"] lacking
  have "instantiate ?q = Inl TypeError"
    by blast
  ultimately show ?thesis by simp
qed

end
